theory Spec2Isabelle
  imports Main "HOL-Library.AList"
begin

section \<open>JavaScript values\<close>

text \<open>
  Configurations are plain JavaScript data as read from YAML. An object is an association
  list in insertion order; every read of a property goes through \<open>map_of\<close> (the first
  entry of a key is the property) and every write through \<open>AList.update\<close> (an existing key
  keeps its place, a new key is appended), as property assignment does. An array is its
  list of elements together with the named properties that have been assigned to it
  (none for an array that comes from a file). Numbers are integers: the configurations
  hold only integral numbers (version, firstDayOfWeek, maxPreviewsCached). A configuration
  is a tree: no value is shared between two places. Inherited prototype properties are
  not modelled, and the special enumeration order of integer-like keys is not either.
\<close>

datatype jsval =
    JUndefined
  | JNull
  | JBool bool
  | JNum int
  | JStr string
  | JArr "jsval list" "(string \<times> jsval) list"
  | JObj "(string \<times> jsval) list"

type_synonym obj = "(string \<times> jsval) list"

text \<open>ToBoolean: what \<open>if (v)\<close>, \<open>!v\<close> and \<open>a || b\<close> test.\<close>

fun truthy :: "jsval \<Rightarrow> bool" where
  "truthy JUndefined = False"
| "truthy JNull = False"
| "truthy (JBool b) = b"
| "truthy (JNum n) = (n \<noteq> 0)"
| "truthy (JStr s) = (s \<noteq> [])"
| "truthy (JArr xs ps) = True"
| "truthy (JObj kvs) = True"

text \<open>\<open>v == null\<close>: null or undefined.\<close>

fun nullish :: "jsval \<Rightarrow> bool" where
  "nullish JUndefined = True"
| "nullish JNull = True"
| "nullish v = False"

subsection \<open>Array indices as property keys\<close>

definition digit_val :: "char \<Rightarrow> nat option" where
  "digit_val c =
     (let n = (of_char c :: nat) in if 48 \<le> n \<and> n \<le> 57 then Some (n - 48) else None)"

fun parse_digits :: "nat \<Rightarrow> string \<Rightarrow> nat option" where
  "parse_digits acc [] = Some acc"
| "parse_digits acc (c # cs) =
     (case digit_val c of None \<Rightarrow> None | Some d \<Rightarrow> parse_digits (10 * acc + d) cs)"

text \<open>A key is an array index when it is the canonical decimal numeral of a number.\<close>

definition array_index :: "string \<Rightarrow> nat option" where
  "array_index s =
     (case s of
        [] \<Rightarrow> None
      | c # cs \<Rightarrow> if c = CHR ''0'' \<and> cs \<noteq> [] then None else parse_digits 0 s)"

function show_nat :: "nat \<Rightarrow> string" where
  "show_nat n =
     (if n < 10 then [char_of (48 + n)]
      else show_nat (n div 10) @ [char_of (48 + n mod 10)])"
  by pat_completeness auto
termination
  by (relation "measure (\<lambda>n. n)") auto

declare show_nat.simps [simp del]

subsection \<open>Property access\<close>

text \<open>\<open>object[key]\<close> on a value that is neither null nor undefined.\<close>

fun js_prop :: "jsval \<Rightarrow> string \<Rightarrow> jsval" where
  "js_prop (JObj kvs) k = (case map_of kvs k of Some v \<Rightarrow> v | None \<Rightarrow> JUndefined)"
| "js_prop (JArr xs ps) k =
     (if k = ''length'' then JNum (int (length xs))
      else case array_index k of
             Some i \<Rightarrow> if i < length xs then xs ! i else JUndefined
           | None \<Rightarrow> (case map_of ps k of Some v \<Rightarrow> v | None \<Rightarrow> JUndefined))"
| "js_prop (JStr s) k =
     (if k = ''length'' then JNum (int (length s))
      else case array_index k of
             Some i \<Rightarrow> if i < length s then JStr [s ! i] else JUndefined
           | None \<Rightarrow> JUndefined)"
| "js_prop v k = JUndefined"

text \<open>\<open>key in Object(object)\<close>, own properties only.\<close>

fun has_prop :: "jsval \<Rightarrow> string \<Rightarrow> bool" where
  "has_prop (JObj kvs) k = (map_of kvs k \<noteq> None)"
| "has_prop (JArr xs ps) k =
     (k = ''length'' \<or>
      (case array_index k of Some i \<Rightarrow> i < length xs | None \<Rightarrow> map_of ps k \<noteq> None))"
| "has_prop (JStr s) k =
     (k = ''length'' \<or> (case array_index k of Some i \<Rightarrow> i < length s | None \<Rightarrow> False))"
| "has_prop v k = False"

text \<open>
  What a call can end with instead of a value: the errors the code raises, and
  \<open>Unmodelled\<close>, which is no error of the program: it marks an input on which the model
  does not follow the program (each place says which), so that nothing is stated about
  the program there.
\<close>

datatype error_status = INVALID_CONFIG

datatype js_error =
    TypeError
  | ThrownString string
  | DendronError error_status string
  | ENOENT
  | Unmodelled

text \<open>
  \<open>object[key] = value\<close> in strict mode (the code is an ES module): an object takes the
  property; an array takes a named property beside its elements; null, undefined and
  primitives raise a TypeError. Assigning an index or \<open>length\<close> of an array changes its
  elements, which the code never does (it assigns \<open>hooks\<close> and \<open>onCreate\<close>): unmodelled.
\<close>

fun set_prop :: "jsval \<Rightarrow> string \<Rightarrow> jsval \<Rightarrow> js_error + jsval" where
  "set_prop (JObj kvs) k v = Inr (JObj (AList.update k v kvs))"
| "set_prop (JArr xs ps) k v =
     (if k = ''length'' \<or> array_index k \<noteq> None then Inl Unmodelled
      else Inr (JArr xs (AList.update k v ps)))"
| "set_prop w k v = Inl TypeError"

text \<open>The own enumerable properties an object spread \<open>{...v}\<close> copies.\<close>

fun ownProps :: "jsval \<Rightarrow> obj" where
  "ownProps (JObj kvs) = kvs"
| "ownProps (JArr xs ps) = map (\<lambda>i. (show_nat i, xs ! i)) [0..<length xs] @ ps"
| "ownProps (JStr s) = map (\<lambda>i. (show_nat i, JStr [s ! i])) [0..<length s]"
| "ownProps v = []"

text \<open>
  \<open>{...target, ...source}\<close>: each property of the source is assigned onto a copy of the
  target, in the source's order.
\<close>

definition spread :: "obj \<Rightarrow> obj \<Rightarrow> obj" where
  "spread target source =
     foldl (\<lambda>acc k. AList.update k (js_prop (JObj source) k) acc) target (map fst source)"

section \<open>The lodash functions the code calls\<close>

text \<open>
  lodash is a dependency, not part of the repository; these definitions follow its
  documented behaviour (version 4). Property paths are modelled for strings without
  bracket or quote syntax, which is what every canonical path of the configuration is:
  for them lodash's \<open>stringToPath\<close> splits at each dot.
\<close>

fun splitOn :: "char \<Rightarrow> string \<Rightarrow> string list" where
  "splitOn c [] = [[]]"
| "splitOn c (x # xs) =
     (if x = c then [] # splitOn c xs
      else case splitOn c xs of
             w # ws \<Rightarrow> (x # w) # ws
           | [] \<Rightarrow> [[x]])"

definition stringToPath :: "string \<Rightarrow> string list" where
  "stringToPath p = splitOn CHR ''.'' p"

text \<open>
  \<open>isKey\<close>: a string is a single property name when it has no dot, or when the object has
  a property of exactly that name.
\<close>

definition isKey :: "string \<Rightarrow> jsval \<Rightarrow> bool" where
  "isKey p object = (CHR ''.'' \<notin> set p \<or> (\<not> nullish object \<and> has_prop object p))"

definition castPath :: "string \<Rightarrow> jsval \<Rightarrow> string list" where
  "castPath p object = (if isKey p object then [p] else stringToPath p)"

text \<open>
  \<open>baseGet\<close>: \<open>while (object != null && index < length) object = object[path[index++]]\<close>,
  then \<open>index && index == length ? object : undefined\<close>.
\<close>

fun walk :: "jsval \<Rightarrow> string list \<Rightarrow> jsval" where
  "walk object [] = object"
| "walk object (k # ks) = (if nullish object then JUndefined else walk (js_prop object k) ks)"

definition baseGet :: "jsval \<Rightarrow> string \<Rightarrow> jsval" where
  "baseGet object p =
     (let path = castPath p object in if path = [] then JUndefined else walk object path)"

text \<open>\<open>_.get(object, path, defaultValue)\<close>.\<close>

definition lodash_get :: "jsval \<Rightarrow> string \<Rightarrow> jsval \<Rightarrow> jsval" where
  "lodash_get object p defaultValue =
     (let result = (if nullish object then JUndefined else baseGet object p)
      in if result = JUndefined then defaultValue else result)"

text \<open>
  \<open>_.defaults(object, source)\<close>: every property of the source whose value in the object
  is \<open>undefined\<close> (absent, or present and undefined) is assigned to the object, which is
  mutated and returned. None of the sources used here has a key of \<open>Object.prototype\<close>.
\<close>

definition lodash_defaults :: "obj \<Rightarrow> obj \<Rightarrow> obj" where
  "lodash_defaults object source =
     foldl (\<lambda>acc k. if js_prop (JObj acc) k = JUndefined
                     then AList.update k (js_prop (JObj source) k) acc else acc)
       object (map fst source)"

text \<open>
  \<open>_.size(collection)\<close>: the length of an array, a string or an array-like object, the
  number of own keys of any other object, 0 otherwise.
\<close>

fun lodash_size :: "jsval \<Rightarrow> int" where
  "lodash_size (JArr xs ps) = int (length xs)"
| "lodash_size (JStr s) = int (length s)"
| "lodash_size (JObj kvs) =
     (case map_of kvs ''length'' of
        Some (JNum n) \<Rightarrow>
          if 0 \<le> n \<and> n \<le> 9007199254740991 then n
          else int (length (remdups (map fst kvs)))
      | _ \<Rightarrow> int (length (remdups (map fst kvs))))"
| "lodash_size v = 0"

text \<open>
  The predicate \<open>_.matches({id: hookId})\<close> that \<open>_.remove\<close> and \<open>_.findIndex\<close> build from
  the object \<open>{id: hookId}\<close>.
\<close>

definition matches_id :: "string \<Rightarrow> jsval \<Rightarrow> bool" where
  "matches_id hookId entry = (\<not> nullish entry \<and> js_prop entry ''id'' = JStr hookId)"

text \<open>
  The elements that \<open>_.remove(array, predicate)\<close> visits. It returns at once unless
  \<open>array && array.length\<close>, and then reads \<open>array[index]\<close> for every index from 0 while
  \<open>index < array.length\<close>. So an array gives its elements, a string its characters, an
  object with a numeric \<open>length\<close> the properties named by the indices below it, an object
  with \<open>length: true\<close> the property \<open>0\<close>, and a value without a truthy \<open>length\<close> nothing.
  Where \<open>length\<close> is a non-empty string, an array or an object, the comparison goes
  through JavaScript's conversion to a number, and where it is a number above
  \<open>2^53 - 1\<close> the indices are no longer exact: \<open>None\<close>, unmodelled.
\<close>

definition visited :: "jsval \<Rightarrow> jsval list option" where
  "visited array =
     (case array of
        JArr xs ps \<Rightarrow> Some xs
      | JStr s \<Rightarrow> Some (map (\<lambda>c. JStr [c]) s)
      | JObj kvs \<Rightarrow>
          (case js_prop (JObj kvs) ''length'' of
             JNum n \<Rightarrow>
               if n \<le> 9007199254740991
               then Some (map (\<lambda>i. js_prop (JObj kvs) (show_nat i)) [0..<nat n])
               else None
           | JBool b \<Rightarrow> Some (if b then [js_prop (JObj kvs) ''0''] else [])
           | JUndefined \<Rightarrow> Some []
           | JNull \<Rightarrow> Some []
           | JStr s \<Rightarrow> if s = [] then Some [] else None
           | JArr ys qs \<Rightarrow> None
           | JObj l \<Rightarrow> None)
      | JUndefined \<Rightarrow> Some []
      | JNull \<Rightarrow> Some []
      | JBool b \<Rightarrow> Some []
      | JNum n \<Rightarrow> Some [])"

text \<open>
  \<open>_.remove(array, {id: hookId})\<close> returns a new array of the visited elements that match,
  and takes them out of \<open>array\<close> in place. The model keeps the returned array only: the
  one place that calls it overwrites the property that held \<open>array\<close>.
\<close>

definition lodash_remove :: "jsval \<Rightarrow> string \<Rightarrow> jsval list option" where
  "lodash_remove array hookId =
     (case visited array of
        None \<Rightarrow> None
      | Some xs \<Rightarrow> Some (filter (matches_id hookId) xs))"

text \<open>\<open>_.findIndex(array, {id: hookId})\<close>: the first matching index, or -1.\<close>

fun lodash_findIndex :: "jsval list \<Rightarrow> string \<Rightarrow> int" where
  "lodash_findIndex [] hookId = -1"
| "lodash_findIndex (x # xs) hookId =
     (if matches_id hookId x then 0
      else let i = lodash_findIndex xs hookId in if i < 0 then -1 else i + 1)"

text \<open>
  \<open>array.splice(start, 1)\<close>, the array it leaves: a negative start counts from the end,
  and the start is clamped to the array.
\<close>

definition splice1 :: "jsval list \<Rightarrow> int \<Rightarrow> jsval list" where
  "splice1 xs start =
     (let n = int (length xs);
          s = nat (if start < 0 then max (n + start) 0 else min start n)
      in take s xs @ drop (Suc s) xs)"

section \<open>What the code imports from outside the sources at hand\<close>

text \<open>
  \<open>config.ts\<close> imports two default generators and three enum members from
  \<open>@dendronhq/common-all\<close>, a file name constant, and \<open>path.join\<close> from Node. Their
  values are parameters of the model.
\<close>

record deps =
  genDefaultCommandConfig :: jsval
  genDefaultWorkspaceConfig :: jsval
  selectionExtract :: jsval
  childOfDomain :: jsval
  asOwnDomain :: jsval
  DENDRON_CONFIG_FILE :: string
  path_join :: "string \<Rightarrow> string \<Rightarrow> string"

text \<open>
  The files of a workspace: a path holds the YAML document stored there, already parsed
  (\<open>readYAML\<close> returns it, \<open>writeYAML\<close> stores an object). Reading a file that is not
  valid YAML, and writes that the operating system refuses, are not modelled.
\<close>

type_synonym filesystem = "string \<rightharpoonup> jsval"

section \<open>config.ts\<close>

definition CURRENT_CONFIG_VERSION :: int where
  "CURRENT_CONFIG_VERSION = 3"

definition requiredPathsMap :: "string \<rightharpoonup> string" where
  "requiredPathsMap = map_of
     [(''commands.insertNote.initialValue'', ''defaultInsertHierarchy''),
      (''commands.insertNoteLink'', ''insertNoteLink''),
      (''commands.insertNoteIndex'', ''insertNoteIndex''),
      (''commands.randomNote'', ''randomNote''),
      (''commands.lookup'', ''lookup''),
      (''workspace.journal'', ''journal''),
      (''workspace.vaults'', ''vaults'')]"

definition configPath :: "deps \<Rightarrow> string \<Rightarrow> string" where
  "configPath d configRoot = path_join d configRoot (DENDRON_CONFIG_FILE d)"

definition common :: obj where
  "common =
     [(''useFMTitle'', JBool True),
      (''useNoteTitleForLink'', JBool True),
      (''noLegacyNoteRef'', JBool True),
      (''mermaid'', JBool True),
      (''useKatex'', JBool True),
      (''usePrettyRefs'', JBool True),
      (''dev'', JObj [(''enablePreviewV2'', JBool True)]),
      (''site'', JObj
         [(''copyAssets'', JBool True),
          (''siteHierarchies'', JArr [JStr ''root''] []),
          (''siteRootDir'', JStr ''docs''),
          (''usePrettyRefs'', JBool True),
          (''title'', JStr ''Dendron''),
          (''description'', JStr ''Personal knowledge space''),
          (''siteLastModified'', JBool True),
          (''gh_edit_branch'', JStr ''main'')])]"

definition omittedFromV2 :: "deps \<Rightarrow> obj" where
  "omittedFromV2 d =
     [(''lookupConfirmVaultOnCreate'', JBool False),
      (''lookup'', JObj
         [(''note'', JObj
            [(''selectionType'', selectionExtract d),
             (''leaveTrace'', JBool False)])])]"

definition omittedFromV3 :: "deps \<Rightarrow> obj" where
  "omittedFromV3 d =
     [(''vaults'', JArr [] []),
      (''journal'', JObj
         [(''dailyDomain'', JStr ''daily''),
          (''name'', JStr ''journal''),
          (''dateFormat'', JStr ''y.MM.dd''),
          (''addBehavior'', childOfDomain d),
          (''firstDayOfWeek'', JNum 1)]),
      (''scratch'', JObj
         [(''name'', JStr ''scratch''),
          (''dateFormat'', JStr ''y.MM.dd.HHmmss''),
          (''addBehavior'', asOwnDomain d)]),
      (''noAutoCreateOnDefinition'', JBool True),
      (''noXVaultWikiLink'', JBool True),
      (''autoFoldFrontmatter'', JBool True),
      (''maxPreviewsCached'', JNum 10)]"

text \<open>\<open>genDefaultConfig(version?)\<close>: \<open>None\<close> is the omitted argument.\<close>

definition genDefaultConfig :: "deps \<Rightarrow> int option \<Rightarrow> obj" where
  "genDefaultConfig d version =
     (let version = (case version of None \<Rightarrow> 1 | Some v \<Rightarrow> v) in
      if version = 3 then
        spread (spread [(''version'', JNum 3)] common)
          [(''commands'', genDefaultCommandConfig d),
           (''workspace'', genDefaultWorkspaceConfig d)]
      else if version = 2 then
        spread (spread (spread [(''version'', JNum 2)] common) (omittedFromV3 d))
          [(''commands'', genDefaultCommandConfig d)]
      else
        spread (spread (spread [(''version'', JNum 1)] common) (omittedFromV3 d))
          (omittedFromV2 d))"

text \<open>
  \<open>getOrCreate(dendronRoot, defaults?)\<close> returns the configuration and leaves the files as
  the second component.
\<close>

definition getOrCreate :: "deps \<Rightarrow> filesystem \<Rightarrow> string \<Rightarrow> jsval \<Rightarrow> obj \<times> filesystem" where
  "getOrCreate d fs dendronRoot defaults =
     (let cpath = configPath d dendronRoot;
          config = spread (spread [] (ownProps defaults)) (genDefaultConfig d None)
      in case fs cpath of
           None \<Rightarrow> (config, fs(cpath \<mapsto> JObj config))
         | Some doc \<Rightarrow> (spread (spread [] config) (ownProps doc), fs))"

text \<open>
  \<open>getProp(config, key)\<close>: \<open>_.defaults\<close> mutates \<open>config\<close>, so the configuration as the call
  leaves it is the second component of the result.
\<close>

definition getProp :: "deps \<Rightarrow> obj \<Rightarrow> string \<Rightarrow> jsval \<times> obj" where
  "getProp d config key =
     (let cConfig = lodash_defaults config (genDefaultConfig d None)
      in (js_prop (JObj cConfig) key, cConfig))"

text \<open>\<open>siteIndex || siteHierarchies[0]\<close>; indexing null or undefined raises.\<close>

definition getSiteIndex :: "obj \<Rightarrow> js_error + jsval" where
  "getSiteIndex sconfig =
     (let siteIndex = js_prop (JObj sconfig) ''siteIndex'';
          siteHierarchies = js_prop (JObj sconfig) ''siteHierarchies''
      in if truthy siteIndex then Inr siteIndex
         else if nullish siteHierarchies then Inl TypeError
         else Inr (js_prop siteHierarchies ''0''))"

definition siteDefaults :: obj where
  "siteDefaults =
     [(''copyAssets'', JBool True),
      (''usePrettyRefs'', JBool True),
      (''siteNotesDir'', JStr ''notes''),
      (''siteFaviconPath'', JStr ''favicon.ico''),
      (''gh_edit_link'', JBool True),
      (''gh_edit_link_text'', JStr ''Edit this page on GitHub''),
      (''gh_edit_branch'', JStr ''main''),
      (''gh_root'', JStr ''docs/''),
      (''gh_edit_view_mode'', JStr ''edit''),
      (''writeStubs'', JBool True),
      (''description'', JStr ''Personal knowledge space'')]"

definition siteUrl_message :: string where
  "siteUrl_message = ''siteUrl is undefined. See https://dendron.so/notes/f2ed8639-a604-4a9d-b76c-41e205fb8713.html#siteurl for more details''"

definition siteHierarchies_message :: string where
  "siteHierarchies_message = ''siteHiearchies must have at least one hiearchy''"

text \<open>
  \<open>cleanSiteConfig(config)\<close>, given the value of the environment variable \<open>SITE_URL\<close>
  (\<open>None\<close> when unset) and what \<open>getStage()\<close> returns. The first component is the value
  returned or the error thrown; the second is the argument as \<open>_.defaults\<close> leaves it.
\<close>

definition cleanSiteConfig ::
  "string option \<Rightarrow> string \<Rightarrow> obj \<Rightarrow> (js_error + obj) \<times> obj" where
  "cleanSiteConfig env_SITE_URL stage config =
     (let out = lodash_defaults config siteDefaults;
          siteRootDir = js_prop (JObj out) ''siteRootDir'';
          siteHierarchies = js_prop (JObj out) ''siteHierarchies'';
          siteUrl0 = js_prop (JObj out) ''siteUrl'';
          siteUrl1 = (case env_SITE_URL of
                        Some u \<Rightarrow> if u \<noteq> [] then JStr u else siteUrl0
                      | None \<Rightarrow> siteUrl0)
      in if \<not> truthy siteRootDir then (Inl (ThrownString ''siteRootDir is undefined''), out)
         else
           let siteUrl2 = (if \<not> truthy siteUrl1 \<and> stage = ''dev''
                           then JStr ''https://foo'' else siteUrl1)
           in if \<not> truthy siteUrl2 then (Inl (DendronError INVALID_CONFIG siteUrl_message), out)
              else if lodash_size siteHierarchies < 1
              then (Inl (DendronError INVALID_CONFIG siteHierarchies_message), out)
              else case getSiteIndex out of
                     Inl e \<Rightarrow> (Inl e, out)
                   | Inr siteIndex \<Rightarrow>
                       (Inr (spread (spread [] out)
                               [(''siteIndex'', siteIndex), (''siteUrl'', siteUrl2)]), out))"

text \<open>
  \<open>createBackup(wsRoot, infix)\<close>, given the formatted time \<open>today\<close> that
  \<open>Time.now().toFormat("yyyy.MM.dd.HHmmssS")\<close> returns. \<open>fs.copyFileSync\<close> raises ENOENT
  when the source does not exist and overwrites the destination otherwise.
\<close>

definition createBackup ::
  "deps \<Rightarrow> string \<Rightarrow> filesystem \<Rightarrow> string \<Rightarrow> string \<Rightarrow> js_error + (string \<times> filesystem)" where
  "createBackup d today fs wsRoot infix =
     (let cpath = configPath d wsRoot;
          prefix = ''dendron.'' @ today @ ''.'';
          suffix = ''yml'';
          maybeInfix = (if infix \<noteq> [] then infix @ ''.'' else []);
          backupName = prefix @ maybeInfix @ suffix;
          backupPath = path_join d wsRoot backupName
      in case fs cpath of
           None \<Rightarrow> Inl ENOENT
         | Some doc \<Rightarrow> Inr (backupPath, fs(backupPath \<mapsto> doc)))"

text \<open>
  \<open>requiredPathsMap.get(path)\<close> is \<open>undefined\<close> for a path outside the map, and
  \<open>cConfig[undefined]\<close> reads the property named "undefined".
\<close>

definition legacyKey :: "string \<Rightarrow> string" where
  "legacyKey path = (case requiredPathsMap path of Some k \<Rightarrow> k | None \<Rightarrow> ''undefined'')"

definition getLegacyConfig :: "deps \<Rightarrow> obj \<Rightarrow> string \<Rightarrow> jsval \<times> obj" where
  "getLegacyConfig d config path = getProp d config (legacyKey path)"

definition isRequired :: "string \<Rightarrow> bool" where
  "isRequired path = (requiredPathsMap path \<noteq> None)"

definition isCurrentConfig :: "obj \<Rightarrow> bool" where
  "isCurrentConfig config = (js_prop (JObj config) ''version'' = JNum CURRENT_CONFIG_VERSION)"

text \<open>
  \<open>getConfig(config, path)\<close>: the value returned, and the configuration as the call leaves
  it (only the legacy branch, through \<open>getProp\<close>, changes it).
\<close>

definition getConfig :: "deps \<Rightarrow> obj \<Rightarrow> string \<Rightarrow> jsval \<times> obj" where
  "getConfig d config path =
     (let v = lodash_get (JObj config) path JUndefined
      in if truthy v then (v, config)
         else if v = JUndefined \<and> \<not> isCurrentConfig config then
           (if js_prop (JObj config) ''version'' = JNum 2 then
              (if isRequired path
               then (lodash_get (JObj (genDefaultConfig d (Some 2))) path JUndefined, config)
               else (JUndefined, config))
            else getLegacyConfig d config path)
         else if v = JUndefined \<and> isRequired path
         then (lodash_get (JObj (genDefaultConfig d (Some 3))) path JUndefined, config)
         else (JUndefined, config))"

section \<open>topics/hooks.ts\<close>

text \<open>
  Modelled from the spec: the type \<open>DHookType\<close> is declared outside the sources at hand;
  the only lifecycle key in use is \<open>onCreate\<close>.
\<close>

datatype DHookType = onCreate

fun hookTypeKey :: "DHookType \<Rightarrow> string" where
  "hookTypeKey onCreate = ''onCreate''"

text \<open>
  The two version branches of \<open>removeFromConfig\<close> do the same to a different owner of the
  \<open>hooks\<close> property: \<open>config.workspace\<close> for version 3, \<open>config\<close> otherwise. \<open>removeHook\<close>
  is that common body on the owner: read \<open>owner.hooks\<close> and the list, initialise
  \<open>owner.hooks\<close>, \<open>_.remove\<close>, \<open>_.findIndex\<close>, \<open>splice\<close>, store into
  \<open>owner.hooks.onCreate\<close>. Reading a property of a null or undefined owner raises.
  The array that \<open>_.remove\<close> changes in place is the one that the last assignment
  replaces, so only the returned array is kept. Where the elements that \<open>_.remove\<close>
  visits are not modelled, the result is \<open>Unmodelled\<close>.
\<close>

definition removeHook :: "jsval \<Rightarrow> DHookType \<Rightarrow> string \<Rightarrow> js_error + jsval" where
  "removeHook owner hookType hookId =
     (if nullish owner then Inl TypeError
      else
        let hooksConfig = js_prop owner ''hooks'';
            onCreate0 = lodash_get hooksConfig (hookTypeKey hookType) (JArr [] []);
            hooks1 = (if truthy hooksConfig then hooksConfig
                      else JObj [(''onCreate'', JArr [] [])])
        in case set_prop owner ''hooks'' hooks1 of
             Inl e \<Rightarrow> Inl e
           | Inr owner1 \<Rightarrow>
               (case lodash_remove onCreate0 hookId of
                  None \<Rightarrow> Inl Unmodelled
                | Some removed \<Rightarrow>
                    (let idx = lodash_findIndex removed hookId;
                         onCreate1 = splice1 removed idx
                     in (case set_prop hooks1 ''onCreate'' (JArr onCreate1 []) of
                           Inl e \<Rightarrow> Inl e
                         | Inr hooks2 \<Rightarrow> set_prop owner1 ''hooks'' hooks2))))"

definition removeFromConfig :: "obj \<Rightarrow> DHookType \<Rightarrow> string \<Rightarrow> js_error + obj" where
  "removeFromConfig config hookType hookId =
     (if js_prop (JObj config) ''version'' = JNum 3 then
        (case removeHook (js_prop (JObj config) ''workspace'') hookType hookId of
           Inl e \<Rightarrow> Inl e
         | Inr workspace1 \<Rightarrow> Inr (AList.update ''workspace'' workspace1 config))
      else
        (case removeHook (JObj config) hookType hookId of
           Inl e \<Rightarrow> Inl e
         | Inr config1 \<Rightarrow> Inr (ownProps config1)))"

text \<open>
  The list that \<open>removeFromConfig\<close> reads (lines 73 to 79), and its entries: the elements
  that \<open>_.remove\<close> visits in it.
\<close>

definition hooksOwner :: "obj \<Rightarrow> jsval" where
  "hooksOwner config =
     (if js_prop (JObj config) ''version'' = JNum 3
      then js_prop (JObj config) ''workspace'' else JObj config)"

definition hookList :: "obj \<Rightarrow> DHookType \<Rightarrow> jsval" where
  "hookList config hookType =
     lodash_get (js_prop (hooksOwner config) ''hooks'') (hookTypeKey hookType) (JArr [] [])"

definition entries :: "jsval \<Rightarrow> jsval list" where
  "entries v = (case visited v of Some xs \<Rightarrow> xs | None \<Rightarrow> [])"

section \<open>Predicates and inputs used in the statements\<close>

text \<open>Objects and arrays: the values that take a property.\<close>

fun isObject :: "jsval \<Rightarrow> bool" where
  "isObject (JObj kvs) = True"
| "isObject (JArr xs ps) = True"
| "isObject v = False"

text \<open>
  The owner of \<open>hooks\<close> (\<open>config.workspace\<close> for version 3, \<open>config\<close> otherwise) takes a
  property, and \<open>hooks\<close> is falsy or takes one.
\<close>

definition hooksWritable :: "obj \<Rightarrow> bool" where
  "hooksWritable config =
     (isObject (hooksOwner config) \<and>
      (isObject (js_prop (hooksOwner config) ''hooks'') \<or>
       \<not> truthy (js_prop (hooksOwner config) ''hooks'')))"

text \<open>Concrete values for the imported parts, for evaluating the functions.\<close>

definition example_deps :: deps where
  "example_deps =
     \<lparr> genDefaultCommandConfig = JObj [(''lookup'', JObj [])],
       genDefaultWorkspaceConfig = JObj [(''vaults'', JArr [] [])],
       selectionExtract = JStr ''selectionExtract'',
       childOfDomain = JStr ''childOfDomain'',
       asOwnDomain = JStr ''asOwnDomain'',
       DENDRON_CONFIG_FILE = ''dendron.yml'',
       path_join = (\<lambda>a b. a @ ''/'' @ b) \<rparr>"

text \<open>
  The fields that \<open>intermediateConfigs.ts\<close> requires: \<open>IntermediateDendronConfig\<close> makes
  \<open>version\<close> and \<open>site\<close> required and everything else optional; \<open>StrictV1\<close> adds \<open>journal\<close>
  and \<open>vaults\<close> and fixes \<open>version: 1\<close>; \<open>StrictV2\<close> and \<open>StrictV3\<close> only fix the version.
\<close>

definition requiredKeys :: "int \<Rightarrow> string list" where
  "requiredKeys v =
     (if v = 1 then [''version'', ''site'', ''journal'', ''vaults''] else [''version'', ''site''])"

text \<open>A configuration has the version tag and every required field, none undefined.\<close>

definition structurallyComplete :: "int \<Rightarrow> obj \<Rightarrow> bool" where
  "structurallyComplete v config =
     (js_prop (JObj config) ''version'' = JNum v \<and>
      (\<forall>k \<in> set (requiredKeys v). map_of config k \<noteq> None \<and> js_prop (JObj config) k \<noteq> JUndefined))"

text \<open>The result is a thrown \<open>DendronError\<close> with status \<open>INVALID_CONFIG\<close>.\<close>

fun isInvalidConfig :: "js_error + obj \<Rightarrow> bool" where
  "isInvalidConfig (Inl (DendronError INVALID_CONFIG m)) = True"
| "isInvalidConfig r = False"

text \<open>
  No site URL can be resolved: the configured \<open>siteUrl\<close> is falsy (absent, empty, null,
  0 or false), \<open>SITE_URL\<close> is unset or empty, and the stage is not "dev".
\<close>

definition siteUrlUnresolved :: "string option \<Rightarrow> string \<Rightarrow> obj \<Rightarrow> bool" where
  "siteUrlUnresolved env_SITE_URL stage config =
     (\<not> truthy (js_prop (JObj config) ''siteUrl'') \<and>
      (env_SITE_URL = None \<or> env_SITE_URL = Some []) \<and> stage \<noteq> ''dev'')"

section \<open>Spread, defaults and property paths\<close>

lemma map_of_spread_aux:
  "map_of (foldl (\<lambda>acc k. AList.update k (js_prop (JObj s) k) acc) t ks) k =
     (if k \<in> set ks then Some (js_prop (JObj s) k) else map_of t k)"
  by (induction ks arbitrary: t) (auto simp: update_conv')

lemma map_of_spread: "map_of (spread t s) = map_of t ++ map_of s"
proof (rule ext)
  fix k
  show "map_of (spread t s) k = (map_of t ++ map_of s) k"
  proof (cases "map_of s k")
    case None
    then have "k \<notin> set (map fst s)" by (simp add: map_of_eq_None_iff)
    with None show ?thesis
      using map_of_spread_aux [of s t "map fst s" k] by (simp add: spread_def map_add_def)
  next
    case (Some v)
    then have "k \<in> set (map fst s)" by (metis map_of_eq_None_iff option.distinct(1) set_map)
    with Some show ?thesis
      using map_of_spread_aux [of s t "map fst s" k] by (simp add: spread_def map_add_def)
  qed
qed

lemma map_of_defaults_aux:
  "map_of (foldl (\<lambda>acc k. if js_prop (JObj acc) k = JUndefined
                     then AList.update k (js_prop (JObj s) k) acc else acc) t ks) k =
     (if k \<in> set ks \<and> js_prop (JObj t) k = JUndefined then Some (js_prop (JObj s) k) else map_of t k)"
  by (induction ks arbitrary: t) (auto simp: update_conv' split: option.splits)

lemma map_of_lodash_defaults:
  "map_of (lodash_defaults t s) k =
     (if k \<in> fst ` set s \<and> js_prop (JObj t) k = JUndefined then Some (js_prop (JObj s) k) else map_of t k)"
  using map_of_defaults_aux [of s t "map fst s" k] by (simp add: lodash_defaults_def)

lemma js_prop_lodash_defaults:
  "js_prop (JObj (lodash_defaults t s)) k =
     (if js_prop (JObj t) k = JUndefined then js_prop (JObj s) k else js_prop (JObj t) k)"
proof (cases "k \<in> fst ` set s")
  case True
  then show ?thesis by (auto simp: map_of_lodash_defaults)
next
  case False
  then have "map_of s k = None" by (simp add: map_of_eq_None_iff)
  with False show ?thesis by (auto simp: map_of_lodash_defaults)
qed


subsection \<open>The default configurations, spreads carried out\<close>

lemma genDefaultConfig_1:
  "genDefaultConfig d (Some 1) = (''version'', JNum 1) # common @ omittedFromV3 d @ omittedFromV2 d"
  by (simp add: genDefaultConfig_def spread_def common_def omittedFromV3_def omittedFromV2_def)

lemma genDefaultConfig_2:
  "genDefaultConfig d (Some 2) =
     (''version'', JNum 2) # common @ omittedFromV3 d @ [(''commands'', genDefaultCommandConfig d)]"
  by (simp add: genDefaultConfig_def spread_def common_def omittedFromV3_def)

lemma genDefaultConfig_3:
  "genDefaultConfig d (Some 3) =
     (''version'', JNum 3) # common @
       [(''commands'', genDefaultCommandConfig d), (''workspace'', genDefaultWorkspaceConfig d)]"
  by (simp add: genDefaultConfig_def spread_def common_def)

lemma genDefaultConfig_None: "genDefaultConfig d None = genDefaultConfig d (Some 1)"
  by (simp add: genDefaultConfig_def)

section \<open>Removing a hook\<close>
















text \<open>The definitions to unfold when a call is evaluated on a concrete input.\<close>

lemmas eval_defs =
  removeFromConfig_def removeHook_def lodash_get_def baseGet_def castPath_def isKey_def
  stringToPath_def matches_id_def splice1_def hookList_def hooksOwner_def hooksWritable_def
  lodash_remove_def visited_def entries_def array_index_def digit_val_def Let_def



text \<open>
  C2: the claim is that the stored list is the original list without the entries whose id
  is \<open>hookId\<close>. With the hooks \<open>h1\<close> and \<open>h2\<close> registered, removing \<open>h1\<close> stores the empty
  list, where the claim keeps \<open>h2\<close>.
\<close>

theorem removeFromConfig_drops_other_hooks:
  "removeFromConfig
     [(''version'', JNum 1),
      (''hooks'', JObj [(''onCreate'', JArr
         [JObj [(''id'', JStr ''h1''), (''pattern'', JStr ''*'')],
          JObj [(''id'', JStr ''h2''), (''pattern'', JStr ''*'')]] [])])]
     onCreate ''h1''
   = Inr [(''version'', JNum 1), (''hooks'', JObj [(''onCreate'', JArr [] [])])]
   \<and> filter (\<lambda>e. \<not> matches_id ''h1'' e)
        (entries (hookList
          [(''version'', JNum 1),
           (''hooks'', JObj [(''onCreate'', JArr
              [JObj [(''id'', JStr ''h1''), (''pattern'', JStr ''*'')],
               JObj [(''id'', JStr ''h2''), (''pattern'', JStr ''*'')]] [])])] onCreate))
      = [JObj [(''id'', JStr ''h2''), (''pattern'', JStr ''*'')]]"
  by (simp add: eval_defs)

section \<open>Resolving a path\<close>

text \<open>
  C1: the claim is that a value found by the direct lookup is returned, also when it is
  falsy. On a version 3 configuration with \<open>dev.enablePreviewV2\<close> set to \<open>false\<close> the direct
  lookup finds \<open>false\<close> and \<open>getConfig\<close> returns \<open>undefined\<close>.
\<close>

theorem getConfig_falsy_value_lost:
  "lodash_get
     (JObj [(''version'', JNum 3), (''dev'', JObj [(''enablePreviewV2'', JBool False)])])
     ''dev.enablePreviewV2'' JUndefined = JBool False
   \<and> getConfig example_deps
        [(''version'', JNum 3), (''dev'', JObj [(''enablePreviewV2'', JBool False)])]
        ''dev.enablePreviewV2''
      = (JUndefined,
         [(''version'', JNum 3), (''dev'', JObj [(''enablePreviewV2'', JBool False)])])"
  by (simp add: getConfig_def eval_defs isCurrentConfig_def CURRENT_CONFIG_VERSION_def
        isRequired_def requiredPathsMap_def)

lemma getConfig_absent_legacy:
  assumes "lodash_get (JObj config) path JUndefined = JUndefined"
    and "js_prop (JObj config) ''version'' \<noteq> JNum 2"
    and "js_prop (JObj config) ''version'' \<noteq> JNum 3"
  shows "getConfig d config path = getProp d config (legacyKey path)"
  using assms
  by (simp add: getConfig_def isCurrentConfig_def CURRENT_CONFIG_VERSION_def getLegacyConfig_def)

lemma lodash_get_workspace_journal:
  assumes "map_of config ''workspace'' = None" and "map_of config ''workspace.journal'' = None"
  shows "lodash_get (JObj config) ''workspace.journal'' JUndefined = JUndefined"
  using assms
  by (simp add: lodash_get_def baseGet_def castPath_def isKey_def stringToPath_def)

text \<open>
  C4: when the direct lookup of the path finds nothing and the version is neither 2 nor 3
  (1, unset, or anything else), \<open>getConfig(config, path)\<close> is \<open>getProp(config, legacyKey)\<close>
  with \<open>legacyKey\<close> the image of the path in \<open>requiredPathsMap\<close>, in the value returned
  and in what it leaves in \<open>config\<close>. In particular a version 1 configuration with a
  top-level \<open>journal\<close> and no \<open>workspace\<close> gives that \<open>journal\<close> for
  \<open>"workspace.journal"\<close>.
\<close>

theorem getConfig_v1_legacy_fallback:
  "(lodash_get (JObj config) path JUndefined = JUndefined \<and>
    js_prop (JObj config) ''version'' \<noteq> JNum 2 \<and>
    js_prop (JObj config) ''version'' \<noteq> JNum 3 \<longrightarrow>
      getConfig d config path = getProp d config (legacyKey path) \<and>
      getConfig d config path = getLegacyConfig d config path \<and>
      (\<forall>k. requiredPathsMap path = Some k \<longrightarrow> getConfig d config path = getProp d config k))
   \<and> (js_prop (JObj config) ''version'' = JNum 1 \<and>
       map_of config ''journal'' = Some journal \<and> journal \<noteq> JUndefined \<and>
       map_of config ''workspace'' = None \<and> map_of config ''workspace.journal'' = None \<longrightarrow>
         fst (getConfig d config ''workspace.journal'') = journal)"
proof (intro conjI impI)
  assume a: "lodash_get (JObj config) path JUndefined = JUndefined \<and>
    js_prop (JObj config) ''version'' \<noteq> JNum 2 \<and>
    js_prop (JObj config) ''version'' \<noteq> JNum 3"
  then show g: "getConfig d config path = getProp d config (legacyKey path)"
    by (simp add: getConfig_absent_legacy)
  then show "getConfig d config path = getLegacyConfig d config path"
    by (simp add: getLegacyConfig_def)
  show "\<forall>k. requiredPathsMap path = Some k \<longrightarrow> getConfig d config path = getProp d config k"
    using g by (simp add: legacyKey_def)
next
  assume a: "js_prop (JObj config) ''version'' = JNum 1 \<and>
       map_of config ''journal'' = Some journal \<and> journal \<noteq> JUndefined \<and>
       map_of config ''workspace'' = None \<and> map_of config ''workspace.journal'' = None"
  then have "lodash_get (JObj config) ''workspace.journal'' JUndefined = JUndefined"
    by (simp add: lodash_get_workspace_journal)
  with a have "getConfig d config ''workspace.journal'' = getProp d config (legacyKey ''workspace.journal'')"
    by (simp add: getConfig_absent_legacy)
  moreover have "legacyKey ''workspace.journal'' = ''journal''"
    by (simp add: legacyKey_def requiredPathsMap_def)
  moreover have "js_prop (JObj config) ''journal'' = journal" using a by simp
  ultimately show "fst (getConfig d config ''workspace.journal'') = journal"
    using a by (simp add: getProp_def Let_def js_prop_lodash_defaults del: js_prop.simps)
qed

theorem getConfig_v1_legacy_fallback_witness:
  "fst (getConfig example_deps
     [(''version'', JNum 1),
      (''site'', JObj [(''siteHierarchies'', JArr [JStr ''root''] []), (''siteRootDir'', JStr ''docs'')]),
      (''journal'', JObj [(''name'', JStr ''j1''), (''dailyDomain'', JStr ''daily'')])]
     ''workspace.journal'')
   = JObj [(''name'', JStr ''j1''), (''dailyDomain'', JStr ''daily'')]"
  using getConfig_v1_legacy_fallback
    [of "[(''version'', JNum 1),
      (''site'', JObj [(''siteHierarchies'', JArr [JStr ''root''] []), (''siteRootDir'', JStr ''docs'')]),
      (''journal'', JObj [(''name'', JStr ''j1''), (''dailyDomain'', JStr ''daily'')])]"
      "''workspace.journal''" example_deps
      "JObj [(''name'', JStr ''j1''), (''dailyDomain'', JStr ''daily'')]"]
  by simp

text \<open>
  C5: on a version 3 configuration, when the direct lookup of the path finds nothing,
  \<open>getConfig\<close> returns the value at that path in \<open>genDefaultConfig(3)\<close> if the path is a key
  of the table \<open>requiredPathsMap\<close> and \<open>undefined\<close> otherwise, and leaves the configuration
  as it was. So \<open>"dev.someUnknownFlag"\<close> resolves to \<open>undefined\<close>, and so does
  \<open>"useFMTitle"\<close>, which is not in the table although the default has it, while
  \<open>"workspace.vaults"\<close>, which is in the table, resolves to its default.
\<close>

theorem getConfig_v3_absent:
  "(js_prop (JObj config) ''version'' = JNum 3 \<and>
    lodash_get (JObj config) path JUndefined = JUndefined \<longrightarrow>
      getConfig d config path =
        (if requiredPathsMap path \<noteq> None
         then lodash_get (JObj (genDefaultConfig d (Some 3))) path JUndefined
         else JUndefined, config))
   \<and> (js_prop (JObj config) ''version'' = JNum 3 \<and>
       lodash_get (JObj config) ''dev.someUnknownFlag'' JUndefined = JUndefined \<longrightarrow>
         fst (getConfig d config ''dev.someUnknownFlag'') = JUndefined)
   \<and> (js_prop (JObj config) ''version'' = JNum 3 \<and>
       lodash_get (JObj config) ''useFMTitle'' JUndefined = JUndefined \<longrightarrow>
         fst (getConfig d config ''useFMTitle'') = JUndefined)
   \<and> (js_prop (JObj config) ''version'' = JNum 3 \<and>
       lodash_get (JObj config) ''workspace.vaults'' JUndefined = JUndefined \<longrightarrow>
         fst (getConfig d config ''workspace.vaults'') =
           lodash_get (JObj (genDefaultConfig d (Some 3))) ''workspace.vaults'' JUndefined)"
  by (simp add: getConfig_def isCurrentConfig_def CURRENT_CONFIG_VERSION_def isRequired_def
        requiredPathsMap_def)

theorem getConfig_v3_absent_witness:
  "getConfig example_deps [(''version'', JNum 3), (''dev'', JObj [(''enablePreviewV2'', JBool True)])]
     ''workspace.vaults''
   = (JArr [] [], [(''version'', JNum 3), (''dev'', JObj [(''enablePreviewV2'', JBool True)])])
   \<and> fst (getConfig example_deps
        [(''version'', JNum 3), (''dev'', JObj [(''enablePreviewV2'', JBool True)])]
        ''dev.someUnknownFlag'') = JUndefined
   \<and> getConfig example_deps
        [(''version'', JNum 3), (''dev'', JObj [(''enablePreviewV2'', JBool True)])]
        ''useFMTitle''
      = (JUndefined, [(''version'', JNum 3), (''dev'', JObj [(''enablePreviewV2'', JBool True)])])"
  using getConfig_v3_absent
    [of "[(''version'', JNum 3), (''dev'', JObj [(''enablePreviewV2'', JBool True)])]"
        "''workspace.vaults''" example_deps]
    getConfig_v3_absent
    [of "[(''version'', JNum 3), (''dev'', JObj [(''enablePreviewV2'', JBool True)])]"
        "''useFMTitle''" example_deps]
  by (simp add: genDefaultConfig_3 common_def example_deps_def requiredPathsMap_def eval_defs)

section \<open>Defaults\<close>

lemma common_keys:
  "map_of common ''site'' = Some (JObj
         [(''copyAssets'', JBool True),
          (''siteHierarchies'', JArr [JStr ''root''] []),
          (''siteRootDir'', JStr ''docs''),
          (''usePrettyRefs'', JBool True),
          (''title'', JStr ''Dendron''),
          (''description'', JStr ''Personal knowledge space''),
          (''siteLastModified'', JBool True),
          (''gh_edit_branch'', JStr ''main'')])"
  "map_of common ''journal'' = None" "map_of common ''vaults'' = None"
  "map_of common ''version'' = None"
  by (simp_all add: common_def)

lemma omittedFromV3_keys:
  "map_of (omittedFromV3 d) ''vaults'' = Some (JArr [] [])"
  "map_of (omittedFromV3 d) ''journal'' = Some (JObj
         [(''dailyDomain'', JStr ''daily''),
          (''name'', JStr ''journal''),
          (''dateFormat'', JStr ''y.MM.dd''),
          (''addBehavior'', childOfDomain d),
          (''firstDayOfWeek'', JNum 1)])"
  by (simp_all add: omittedFromV3_def)

text \<open>
  C7: for every version \<open>v\<close> of 1, 2 and 3, \<open>genDefaultConfig(v)\<close> carries \<open>version: v\<close> and
  every field that \<open>StrictV1\<close>, \<open>StrictV2\<close> or \<open>StrictV3\<close> requires, none of them undefined;
  with the version omitted the result is the version 1 configuration.
\<close>

theorem genDefaultConfig_structurally_complete:
  "(v = 1 \<or> v = 2 \<or> v = 3 \<longrightarrow> structurallyComplete v (genDefaultConfig d (Some v)))
   \<and> genDefaultConfig d None = genDefaultConfig d (Some 1)
   \<and> structurallyComplete 1 (genDefaultConfig d None)"
proof -
  have 1: "structurallyComplete 1 (genDefaultConfig d (Some 1))"
    by (simp add: structurallyComplete_def requiredKeys_def genDefaultConfig_1 map_add_def
          common_keys omittedFromV3_keys)
  have 2: "structurallyComplete 2 (genDefaultConfig d (Some 2))"
    by (simp add: structurallyComplete_def requiredKeys_def genDefaultConfig_2 map_add_def
          common_keys)
  have 3: "structurallyComplete 3 (genDefaultConfig d (Some 3))"
    by (simp add: structurallyComplete_def requiredKeys_def genDefaultConfig_3 map_add_def
          common_keys)
  show ?thesis using 1 2 3 by (auto simp: genDefaultConfig_None)
qed

theorem genDefaultConfig_structurally_complete_witness:
  "structurallyComplete 3 (genDefaultConfig example_deps (Some 3))
   \<and> js_prop (JObj (genDefaultConfig example_deps (Some 3))) ''version'' = JNum 3
   \<and> js_prop (JObj (genDefaultConfig example_deps None)) ''vaults'' = JArr [] []"
  using genDefaultConfig_structurally_complete [of 3 example_deps]
  by (simp add: structurallyComplete_def genDefaultConfig_1 map_add_def common_keys omittedFromV3_keys)

text \<open>
  C10: \<open>getProp\<close> changes the configuration it is given: every top-level field that is
  missing from it and that \<open>genDefaultConfig()\<close> has is written into it with that default,
  the defined fields stay, and the value returned is read from the configuration so
  filled. So there is a version 1 configuration that a \<open>getConfig\<close> call leaves changed.
\<close>

theorem getProp_fills_config_in_place:
  "fst (getProp d config key) = js_prop (JObj (snd (getProp d config key))) key
   \<and> (\<forall>k. map_of config k = None \<and> map_of (genDefaultConfig d None) k \<noteq> None \<longrightarrow>
         map_of (snd (getProp d config key)) k = map_of (genDefaultConfig d None) k)
   \<and> (\<forall>k v. map_of config k = Some v \<and> v \<noteq> JUndefined \<longrightarrow>
         map_of (snd (getProp d config key)) k = Some v)
   \<and> (\<exists>c p. js_prop (JObj c) ''version'' = JNum 1 \<and> snd (getConfig d c p) \<noteq> c)"
proof (intro conjI allI impI)
  show "fst (getProp d config key) = js_prop (JObj (snd (getProp d config key))) key"
    by (simp add: getProp_def Let_def)
next
  fix k
  assume a: "map_of config k = None \<and> map_of (genDefaultConfig d None) k \<noteq> None"
  then obtain v where v: "map_of (genDefaultConfig d None) k = Some v" by auto
  then have "k \<in> fst ` set (genDefaultConfig d None)"
    by (metis map_of_eq_None_iff option.distinct(1))
  with a v show "map_of (snd (getProp d config key)) k = map_of (genDefaultConfig d None) k"
    by (simp add: getProp_def Let_def map_of_lodash_defaults)
next
  fix k v
  assume "map_of config k = Some v \<and> v \<noteq> JUndefined"
  then show "map_of (snd (getProp d config key)) k = Some v"
    by (simp add: getProp_def Let_def map_of_lodash_defaults)
next
  let ?c = "[(''version'', JNum 1)]"
  have g: "getConfig d ?c ''workspace.journal'' = getProp d ?c ''journal''"
    by (simp add: getConfig_def eval_defs isCurrentConfig_def CURRENT_CONFIG_VERSION_def
          getLegacyConfig_def legacyKey_def requiredPathsMap_def)
  have "map_of (genDefaultConfig d None) ''site'' \<noteq> None"
    by (simp add: genDefaultConfig_None genDefaultConfig_1 map_add_def common_keys)
  then have "''site'' \<in> fst ` set (genDefaultConfig d None)"
    by (metis map_of_eq_None_iff)
  then have "map_of (snd (getProp d ?c ''journal'')) ''site'' \<noteq> None"
    by (simp add: getProp_def Let_def map_of_lodash_defaults)
  then have "snd (getConfig d ?c ''workspace.journal'') \<noteq> ?c"
    using g by auto
  then show "\<exists>c p. js_prop (JObj c) ''version'' = JNum 1 \<and> snd (getConfig d c p) \<noteq> c"
    by (intro exI [of _ ?c] exI [of _ "''workspace.journal''"]) simp
qed

theorem getProp_fills_config_in_place_witness:
  "map_of (snd (getProp example_deps [(''version'', JNum 1)] ''journal'')) ''vaults'' = Some (JArr [] [])
   \<and> map_of (snd (getProp example_deps [(''version'', JNum 1)] ''journal'')) ''version'' = Some (JNum 1)"
  using getProp_fills_config_in_place [of example_deps "[(''version'', JNum 1)]" "''journal''"]
  by (simp add: genDefaultConfig_None genDefaultConfig_1 map_add_def common_keys omittedFromV3_keys)

section \<open>The configuration file\<close>

text \<open>
  C6: when a configuration file exists, \<open>getOrCreate\<close> leaves the files as they are and
  returns an object whose key \<open>k\<close> has the value on disk if the file has \<open>k\<close> (whole, with
  no merge inside it), else the value of \<open>genDefaultConfig()\<close> if that has \<open>k\<close>, else the
  value in \<open>defaults\<close>. When no file exists, the provisional configuration (defaults
  overridden by \<open>genDefaultConfig()\<close>) is returned and is what the file then holds.
\<close>

theorem getOrCreate_shallow_merge:
  "(fs (configPath d root) = Some doc \<longrightarrow>
      snd (getOrCreate d fs root defaults) = fs \<and>
      map_of (fst (getOrCreate d fs root defaults)) k =
        (case map_of (ownProps doc) k of
           Some v \<Rightarrow> Some v
         | None \<Rightarrow>
             (case map_of (genDefaultConfig d None) k of
                Some v \<Rightarrow> Some v
              | None \<Rightarrow> map_of (ownProps defaults) k)))
   \<and> (fs (configPath d root) = None \<longrightarrow>
      snd (getOrCreate d fs root defaults) =
        fs(configPath d root \<mapsto> JObj (fst (getOrCreate d fs root defaults))) \<and>
      map_of (fst (getOrCreate d fs root defaults)) k =
        (case map_of (genDefaultConfig d None) k of
           Some v \<Rightarrow> Some v
         | None \<Rightarrow> map_of (ownProps defaults) k))"
  by (simp add: getOrCreate_def Let_def map_of_spread map_add_def split: option.splits)

theorem getOrCreate_shallow_merge_witness:
  "map_of (fst (getOrCreate example_deps
      [''/ws/dendron.yml'' \<mapsto> JObj [(''version'', JNum 3), (''site'', JObj [(''siteUrl'', JStr ''https://x'')])]]
      ''/ws'' (JObj [(''site'', JNull), (''extra'', JNum 7)]))) ''site''
     = Some (JObj [(''siteUrl'', JStr ''https://x'')])"
  using getOrCreate_shallow_merge
    [of "[''/ws/dendron.yml'' \<mapsto> JObj [(''version'', JNum 3), (''site'', JObj [(''siteUrl'', JStr ''https://x'')])]]"
        example_deps "''/ws''"
        "JObj [(''version'', JNum 3), (''site'', JObj [(''siteUrl'', JStr ''https://x'')])]"
        "JObj [(''site'', JNull), (''extra'', JNum 7)]" "''site''"]
  by (simp add: configPath_def example_deps_def)

text \<open>
  C9: when the configuration file exists, \<open>createBackup\<close> copies it to the file
  \<open>dendron.<today>.<infix>.yml\<close> of the workspace root, or \<open>dendron.<today>.yml\<close> when the
  infix is empty, and returns that path; when there is no configuration file it raises
  the error of the copy.
\<close>

theorem createBackup_naming:
  "(fs (configPath d wsRoot) = Some doc \<and> infix \<noteq> [] \<longrightarrow>
      createBackup d today fs wsRoot infix =
        Inr (path_join d wsRoot (''dendron.'' @ today @ ''.'' @ infix @ ''.yml''),
             fs(path_join d wsRoot (''dendron.'' @ today @ ''.'' @ infix @ ''.yml'') \<mapsto> doc)))
   \<and> (fs (configPath d wsRoot) = Some doc \<and> infix = [] \<longrightarrow>
      createBackup d today fs wsRoot infix =
        Inr (path_join d wsRoot (''dendron.'' @ today @ ''.yml''),
             fs(path_join d wsRoot (''dendron.'' @ today @ ''.yml'') \<mapsto> doc)))
   \<and> (fs (configPath d wsRoot) = None \<longrightarrow> createBackup d today fs wsRoot infix = Inl ENOENT)"
  by (simp add: createBackup_def Let_def)

theorem createBackup_naming_witness:
  "fst (projr (createBackup example_deps ''2024.01.02.030405006''
      [''/ws/dendron.yml'' \<mapsto> JObj [(''version'', JNum 3)]] ''/ws'' ''foo''))
     = ''/ws/dendron.2024.01.02.030405006.foo.yml''
   \<and> fst (projr (createBackup example_deps ''2024.01.02.030405006''
      [''/ws/dendron.yml'' \<mapsto> JObj [(''version'', JNum 3)]] ''/ws'' []))
     = ''/ws/dendron.2024.01.02.030405006.yml''
   \<and> createBackup example_deps ''2024.01.02.030405006'' Map.empty ''/ws'' ''foo'' = Inl ENOENT"
  using createBackup_naming
    [of "[''/ws/dendron.yml'' \<mapsto> JObj [(''version'', JNum 3)]]" example_deps "''/ws''"
        "JObj [(''version'', JNum 3)]" "''foo''" "''2024.01.02.030405006''"]
    createBackup_naming
    [of "[''/ws/dendron.yml'' \<mapsto> JObj [(''version'', JNum 3)]]" example_deps "''/ws''"
        "JObj [(''version'', JNum 3)]" "[]" "''2024.01.02.030405006''"]
    createBackup_naming
    [of Map.empty example_deps "''/ws''" "JObj [(''version'', JNum 3)]" "''foo''"
        "''2024.01.02.030405006''"]
  by (simp add: configPath_def example_deps_def)

section \<open>Site configuration\<close>

lemma js_prop_site_defaults:
  "k \<notin> fst ` set siteDefaults \<Longrightarrow>
   js_prop (JObj (lodash_defaults config siteDefaults)) k = js_prop (JObj config) k"
  using js_prop_lodash_defaults [of config siteDefaults k]
  by (simp add: map_of_eq_None_iff [THEN iffD2])

lemma site_keys_not_defaulted:
  "''siteRootDir'' \<notin> fst ` set siteDefaults" "''siteHierarchies'' \<notin> fst ` set siteDefaults"
  "''siteUrl'' \<notin> fst ` set siteDefaults" "''siteIndex'' \<notin> fst ` set siteDefaults"
  by (simp_all add: siteDefaults_def)

lemma cleanSiteConfig_unfold:
  "fst (cleanSiteConfig env stage config) =
     (if \<not> truthy (js_prop (JObj config) ''siteRootDir'')
      then Inl (ThrownString ''siteRootDir is undefined'')
      else if siteUrlUnresolved env stage config
      then Inl (DendronError INVALID_CONFIG siteUrl_message)
      else if lodash_size (js_prop (JObj config) ''siteHierarchies'') < 1
      then Inl (DendronError INVALID_CONFIG siteHierarchies_message)
      else fst (cleanSiteConfig env stage config))"
proof -
  have p: "js_prop (JObj (lodash_defaults config siteDefaults)) ''siteRootDir''
             = js_prop (JObj config) ''siteRootDir''"
    "js_prop (JObj (lodash_defaults config siteDefaults)) ''siteHierarchies''
             = js_prop (JObj config) ''siteHierarchies''"
    "js_prop (JObj (lodash_defaults config siteDefaults)) ''siteUrl''
             = js_prop (JObj config) ''siteUrl''"
    by (simp_all only: js_prop_site_defaults site_keys_not_defaulted not_False_eq_True)
  show ?thesis
    unfolding cleanSiteConfig_def Let_def p siteUrlUnresolved_def
    by (cases env) (auto split: sum.splits)
qed

lemma cleanSiteConfig_ok_or_TypeError:
  assumes "truthy (js_prop (JObj config) ''siteRootDir'')"
    and "\<not> siteUrlUnresolved env stage config"
    and "\<not> lodash_size (js_prop (JObj config) ''siteHierarchies'') < 1"
  shows "\<not> isInvalidConfig (fst (cleanSiteConfig env stage config))"
proof -
  have p: "js_prop (JObj (lodash_defaults config siteDefaults)) ''siteRootDir''
             = js_prop (JObj config) ''siteRootDir''"
    "js_prop (JObj (lodash_defaults config siteDefaults)) ''siteHierarchies''
             = js_prop (JObj config) ''siteHierarchies''"
    "js_prop (JObj (lodash_defaults config siteDefaults)) ''siteUrl''
             = js_prop (JObj config) ''siteUrl''"
    "js_prop (JObj (lodash_defaults config siteDefaults)) ''siteIndex''
             = js_prop (JObj config) ''siteIndex''"
    by (simp_all only: js_prop_site_defaults site_keys_not_defaulted not_False_eq_True)
  have n: "\<not> nullish (js_prop (JObj config) ''siteHierarchies'')"
    using assms(3) by (cases "js_prop (JObj config) ''siteHierarchies''") simp_all
  show ?thesis
    using assms n
    unfolding cleanSiteConfig_def Let_def p siteUrlUnresolved_def getSiteIndex_def
    by (cases env) (auto split: sum.splits)
qed

text \<open>
  C8, as amended: \<open>cleanSiteConfig\<close> throws for every input whose \<open>siteHierarchies\<close> is the
  empty list. With a truthy \<open>siteRootDir\<close> it throws an \<open>INVALID_CONFIG\<close> error exactly
  when no site URL can be resolved (the configured \<open>siteUrl\<close> is falsy, \<open>SITE_URL\<close> is unset
  or empty, and the stage is not "dev") or \<open>siteHierarchies\<close> has no element.
\<close>

theorem cleanSiteConfig_rejections:
  "((\<exists>ps. js_prop (JObj config) ''siteHierarchies'' = JArr [] ps) \<longrightarrow>
      (\<exists>e. fst (cleanSiteConfig env stage config) = Inl e))
   \<and> (truthy (js_prop (JObj config) ''siteRootDir'') \<longrightarrow>
        (isInvalidConfig (fst (cleanSiteConfig env stage config))
           \<longleftrightarrow> siteUrlUnresolved env stage config
                \<or> lodash_size (js_prop (JObj config) ''siteHierarchies'') < 1))"
proof (intro conjI impI)
  assume "\<exists>ps. js_prop (JObj config) ''siteHierarchies'' = JArr [] ps"
  then have "lodash_size (js_prop (JObj config) ''siteHierarchies'') < 1" by auto
  then show "\<exists>e. fst (cleanSiteConfig env stage config) = Inl e"
    using cleanSiteConfig_unfold [of env stage config] by (auto split: if_splits)
next
  assume r: "truthy (js_prop (JObj config) ''siteRootDir'')"
  show "isInvalidConfig (fst (cleanSiteConfig env stage config))
           \<longleftrightarrow> siteUrlUnresolved env stage config
                \<or> lodash_size (js_prop (JObj config) ''siteHierarchies'') < 1"
  proof
    assume "siteUrlUnresolved env stage config
                \<or> lodash_size (js_prop (JObj config) ''siteHierarchies'') < 1"
    then show "isInvalidConfig (fst (cleanSiteConfig env stage config))"
      using r cleanSiteConfig_unfold [of env stage config] by (auto split: if_splits)
  next
    assume i: "isInvalidConfig (fst (cleanSiteConfig env stage config))"
    show "siteUrlUnresolved env stage config
                \<or> lodash_size (js_prop (JObj config) ''siteHierarchies'') < 1"
      using i r cleanSiteConfig_ok_or_TypeError [of config env stage] by blast
  qed
qed

text \<open>
  The theorem at four inputs: no \<open>siteUrl\<close> outside "dev", no \<open>siteUrl\<close> in "dev", an empty
  \<open>siteUrl\<close> with \<open>SITE_URL\<close> set, and an empty \<open>siteHierarchies\<close>.
\<close>

theorem cleanSiteConfig_rejections_witness:
  "fst (cleanSiteConfig None ''prod''
      [(''siteRootDir'', JStr ''docs''), (''siteHierarchies'', JArr [JStr ''root''] [])])
     = Inl (DendronError INVALID_CONFIG siteUrl_message)
   \<and> \<not> isInvalidConfig (fst (cleanSiteConfig None ''dev''
      [(''siteRootDir'', JStr ''docs''), (''siteHierarchies'', JArr [JStr ''root''] [])]))
   \<and> \<not> isInvalidConfig (fst (cleanSiteConfig (Some ''https://example.org'') ''prod''
      [(''siteRootDir'', JStr ''docs''), (''siteUrl'', JStr []),
       (''siteHierarchies'', JArr [JStr ''root''] [])]))
   \<and> fst (cleanSiteConfig None ''dev''
      [(''siteRootDir'', JStr ''docs''), (''siteHierarchies'', JArr [] [])])
     = Inl (DendronError INVALID_CONFIG siteHierarchies_message)"
  using cleanSiteConfig_rejections
    [of "[(''siteRootDir'', JStr ''docs''), (''siteHierarchies'', JArr [JStr ''root''] [])]"
        None "''prod''"]
    cleanSiteConfig_rejections
    [of "[(''siteRootDir'', JStr ''docs''), (''siteHierarchies'', JArr [JStr ''root''] [])]"
        None "''dev''"]
    cleanSiteConfig_rejections
    [of "[(''siteRootDir'', JStr ''docs''), (''siteUrl'', JStr []),
          (''siteHierarchies'', JArr [JStr ''root''] [])]"
        "Some ''https://example.org''" "''prod''"]
    cleanSiteConfig_unfold
    [of None "''prod''"
        "[(''siteRootDir'', JStr ''docs''), (''siteHierarchies'', JArr [JStr ''root''] [])]"]
    cleanSiteConfig_unfold
    [of None "''dev''" "[(''siteRootDir'', JStr ''docs''), (''siteHierarchies'', JArr [] [])]"]
  by (simp add: siteUrlUnresolved_def)

text \<open>
  C8, as stated: with \<open>siteRootDir\<close> present, an \<open>INVALID_CONFIG\<close> error would be thrown
  exactly when \<open>siteUrl\<close> is absent, \<open>SITE_URL\<close> is unset and the stage is not "dev". A
  configuration with a \<open>siteUrl\<close> and an empty \<open>siteHierarchies\<close> gets an \<open>INVALID_CONFIG\<close>
  error all the same.
\<close>

theorem cleanSiteConfig_invalid_with_siteUrl:
  "\<not> (isInvalidConfig (fst (cleanSiteConfig None ''prod''
          [(''siteRootDir'', JStr ''docs''), (''siteUrl'', JStr ''https://example.org''),
           (''siteHierarchies'', JArr [] [])]))
      \<longleftrightarrow> (map_of [(''siteRootDir'', JStr ''docs''), (''siteUrl'', JStr ''https://example.org''),
                   (''siteHierarchies'', JArr [] [])] ''siteUrl'' = None
           \<and> (None :: string option) = None \<and> ''prod'' \<noteq> ''dev''))"
  using cleanSiteConfig_unfold [of None "''prod''"
          "[(''siteRootDir'', JStr ''docs''), (''siteUrl'', JStr ''https://example.org''),
           (''siteHierarchies'', JArr [] [])]"]
  by (simp add: siteUrlUnresolved_def)

end
